theory Spec2Isabelle
  imports Main
begin

section \<open>The discovery example \<open>examples/mgmt-lqi.js\<close>\<close>

text \<open>
  The class \<open>DeconzTest\<close> reads the coordinator's parameters one after the other and
  then walks its neighbour table with Management-LQI requests. Everything is driven by
  \<open>handleFrame\<close>, called once for each decoded inbound frame. The model passes the
  object's mutable fields as a record; the frames written to the serial port, the lines
  printed by the class's own dump methods and the closing of the port are components of
  that record, in the order in which the code produces them.
\<close>

subsection \<open>Constants of the codec library\<close>

text \<open>
  \<open>C.FRAME_TYPE\<close>: the four frame types the example names, and any other type the codec
  can decode.
\<close>

datatype frame_type =
    READ_PARAMETER
  | APS_DATA_INDICATION
  | APS_DATA_CONFIRM
  | APS_DATA_REQUEST
  | OTHER_TYPE nat

text \<open>\<open>C.PARAM_ID\<close>: the identifiers listed in the example's table \<open>PARAM\<close> (lines 21 to 35).\<close>

datatype param_id =
    MAC_ADDRESS
  | NETWORK_PANID16
  | NETWORK_ADDR16
  | NETWORK_PANID64
  | APS_DESIGNATED_COORDINATOR
  | SCAN_CHANNELS
  | APS_PANID64
  | TRUST_CENTER_ADDR64
  | SECURITY_MODE
  | NETWORK_KEY
  | OPERATING_CHANNEL
  | PROTOCOL_VERSION
  | NETWORK_UPDATE_ID

text \<open>The ZDO cluster identifiers of the Management-LQI exchange (ZigBee specification).\<close>

definition MANAGEMENT_LQI_REQUEST :: nat where
  "MANAGEMENT_LQI_REQUEST = 0x0031"

definition MANAGEMENT_LQI_RESPONSE :: nat where
  "MANAGEMENT_LQI_RESPONSE = 0x8031"

text \<open>
  The table \<open>PARAM\<close> and the descriptor table \<open>C.PARAM_ID[paramId].fieldName\<close> are
  parameters of the model: the second lives in the codec library, and the claims about
  an empty descriptor sequence need the first to vary. \<open>PARAM_table\<close> is the table as the
  example declares it.
\<close>

record config =
  PARAM :: "param_id list"
  fieldName :: "param_id \<Rightarrow> string"

definition PARAM_table :: "param_id list" where
  "PARAM_table =
     [MAC_ADDRESS, NETWORK_PANID16, NETWORK_ADDR16, NETWORK_PANID64,
      APS_DESIGNATED_COORDINATOR, SCAN_CHANNELS, APS_PANID64, TRUST_CENTER_ADDR64,
      SECURITY_MODE, NETWORK_KEY, OPERATING_CHANNEL, PROTOCOL_VERSION,
      NETWORK_UPDATE_ID]"

subsection \<open>Values, frames, nodes\<close>

text \<open>
  A JavaScript value held in a frame field or in a dynamically created field of the
  object; \<open>undefined\<close> is \<open>None\<close> of the option type wrapped around it.
\<close>

datatype jsval = Num int | Str string

text \<open>\<open>class Node\<close>, lines 44 to 49. The constructor takes the long address first.\<close>

datatype node = Node (node_addr64: string) (node_addr16: string)

text \<open>One entry of \<open>frame.neighbors\<close>, as far as the example reads it.\<close>

record neighbor =
  addr64 :: string
  addr16 :: string

text \<open>
  A decoded inbound frame, after \<open>zdo.parseZdoFrame\<close> has decorated it when it is a ZDO
  frame. \<open>dataConfirm\<close> and \<open>dataIndication\<close> are \<open>None\<close> when the frame has no such own
  property and otherwise hold the truthiness of the property. \<open>property\<close> is the frame's
  lookup by field name, \<open>frame[fieldName]\<close>. \<open>clusterId\<close> is the result of
  \<open>zdo.getClusterIdAsInt(frame.clusterId)\<close>. The pagination counters are the bytes of
  the decoded Management-LQI response.
\<close>

record frame =
  ftype :: frame_type
  dataConfirm :: "bool option"
  dataIndication :: "bool option"
  property :: "string \<rightharpoonup> jsval"
  clusterId :: nat
  startIndex :: nat
  numEntries :: nat
  numEntriesThisResponse :: nat
  neighbors :: "neighbor list"

text \<open>
  The objects handed to \<open>sendFrame\<close>. \<open>ZdoFrame\<close> carries the properties given to
  \<open>zdo.makeFrame\<close>: the request built at line 183 gives no \<open>type\<close>, the one built by
  \<open>managementLqi\<close> gives \<open>APS_DATA_REQUEST\<close>.
\<close>

datatype out_frame =
    ReadParameterFrame (paramId: param_id)
  | ApsDataConfirmFrame
  | ApsDataIndicationFrame
  | ZdoFrame (zdo_type: "frame_type option") (destination64: "jsval option")
      (destination16: string) (zdo_clusterId: nat) (zdo_startIndex: nat)

text \<open>The lines the class prints from its own dump methods, one event for each.\<close>

datatype console_event =
    ParameterLine param_id
  | NodesDumped
  | DemoCompleted

text \<open>The exception a property read on \<open>undefined\<close> raises.\<close>

datatype error = TypeError

subsection \<open>The object's state\<close>

text \<open>
  \<open>props\<close> holds the properties created by \<open>this[fieldName] = ...\<close>; the descriptor
  table of the library names them \<open>macAddress\<close>, \<open>scanChannels\<close> and so on, none of them
  a field the class declares itself. \<open>heap\<close> is the store of \<open>Node\<close> objects: a reference
  is an index into it, and \<open>new Node\<close> appends. \<open>node16\<close> and \<open>node64\<close> hold references,
  so that two entries naming the same object are told from two entries naming equal
  objects.
\<close>

record state =
  paramIdx :: nat
  deviceStateUpdateInProgress :: bool
  props :: "string \<rightharpoonup> jsval"
  heap :: "node list"
  node16 :: "string \<rightharpoonup> nat"
  node64 :: "string \<rightharpoonup> nat"
  sent :: "out_frame list"
  console :: "console_event list"
  closed :: bool

text \<open>
  The constructor, lines 52 to 114: both registries empty, the flag not yet assigned
  (falsy). \<open>paramIdx\<close> is assigned by \<open>readParameters\<close>, which the constructor's callback
  calls right after it attaches the handler that feeds \<open>handleFrame\<close>.
\<close>

definition constructor :: state where
  "constructor =
     \<lparr>paramIdx = 0, deviceStateUpdateInProgress = False, props = Map.empty,
      heap = [], node16 = Map.empty, node64 = Map.empty,
      sent = [], console = [], closed = False\<rparr>"

subsection \<open>Methods\<close>

text \<open>\<open>sendFrame\<close>, lines 245 to 254: the frame is built and written to the port.\<close>

definition sendFrame :: "out_frame \<Rightarrow> state \<Rightarrow> state" where
  "sendFrame fr s = s\<lparr>sent := sent s @ [fr]\<rparr>"

text \<open>\<open>demoDone\<close>, lines 116 to 119.\<close>

definition demoDone :: "state \<Rightarrow> state" where
  "demoDone s = s\<lparr>console := console s @ [DemoCompleted], closed := True\<rparr>"

text \<open>\<open>dumpNodes\<close>, lines 121 to 129: prints the table reached from \<open>node16\<close>.\<close>

definition dumpNodes :: "state \<Rightarrow> state" where
  "dumpNodes s = s\<lparr>console := console s @ [NodesDumped]\<rparr>"

text \<open>
  \<open>dumpParameters\<close>, lines 131 to 141: one line for each descriptor in order. For
  \<open>SCAN_CHANNELS\<close> the stored value is sent \<open>toString(16)\<close>, which raises when the value
  is \<open>undefined\<close>; the lines before it have been printed by then.
\<close>

fun dumpParametersFrom :: "config \<Rightarrow> param_id list \<Rightarrow> state \<Rightarrow> error option \<times> state" where
  "dumpParametersFrom cfg [] s = (None, s)"
| "dumpParametersFrom cfg (p # ps) s =
     (if p = SCAN_CHANNELS \<and> props s (fieldName cfg p) = None
      then (Some TypeError, s)
      else dumpParametersFrom cfg ps (s\<lparr>console := console s @ [ParameterLine p]\<rparr>))"

definition dumpParameters :: "config \<Rightarrow> state \<Rightarrow> error option \<times> state" where
  "dumpParameters cfg s = dumpParametersFrom cfg (PARAM cfg) s"

text \<open>\<open>managementLqi\<close>, lines 201 to 210.\<close>

definition managementLqi :: "nat \<Rightarrow> state \<Rightarrow> state" where
  "managementLqi start s =
     sendFrame (ZdoFrame (Some APS_DATA_REQUEST) (props s ''macAddress'') ''0000''
                  MANAGEMENT_LQI_REQUEST start) s"

text \<open>\<open>readParameter\<close>, lines 228 to 238.\<close>

definition readParameter :: "config \<Rightarrow> nat \<Rightarrow> state \<Rightarrow> state" where
  "readParameter cfg idx s =
     (if idx \<ge> length (PARAM cfg) then managementLqi 0 s
      else sendFrame (ReadParameterFrame (PARAM cfg ! idx)) s)"

text \<open>\<open>readParameters\<close>, lines 240 to 243.\<close>

definition readParameters :: "config \<Rightarrow> state \<Rightarrow> state" where
  "readParameters cfg s = (let s1 = s\<lparr>paramIdx := 0\<rparr> in readParameter cfg (paramIdx s1) s1)"

text \<open>
  The body of the loop of \<open>handleManagementLqiResponse\<close>, lines 214 to 217: a new
  \<open>Node\<close> is allocated and both registries are made to refer to it.
\<close>

definition registerNeighbor :: "neighbor \<Rightarrow> state \<Rightarrow> state" where
  "registerNeighbor nb s =
     (let r = length (heap s) in
      s\<lparr>heap := heap s @ [Node (addr64 nb) (addr16 nb)],
        node16 := (node16 s)(addr16 nb \<mapsto> r),
        node64 := (node64 s)(addr64 nb \<mapsto> r)\<rparr>)"

text \<open>
  The loop itself, line 213. \<open>frame.neighbors[idx]\<close> beyond the end of the array is
  \<open>undefined\<close>, and reading \<open>addr64\<close> from it raises; the entries before it have been
  registered by then.
\<close>

function registerLoop :: "frame \<Rightarrow> nat \<Rightarrow> state \<Rightarrow> error option \<times> state" where
  "registerLoop f idx s =
     (if idx < numEntriesThisResponse f
      then (if idx < length (neighbors f)
            then registerLoop f (idx + 1) (registerNeighbor (neighbors f ! idx) s)
            else (Some TypeError, s))
      else (None, s))"
  by pat_completeness auto
termination
  by (relation "measure (\<lambda>(f, idx, s). numEntriesThisResponse f - idx)") auto

declare registerLoop.simps [simp del]

text \<open>\<open>handleManagementLqiResponse\<close>, lines 212 to 226.\<close>

definition handleManagementLqiResponse :: "frame \<Rightarrow> state \<Rightarrow> error option \<times> state" where
  "handleManagementLqiResponse f s =
     (case registerLoop f 0 s of
        (Some e, s1) \<Rightarrow> (Some e, s1)
      | (None, s1) \<Rightarrow>
          (let nextStartIndex = startIndex f + numEntriesThisResponse f in
           if nextStartIndex < numEntries f
           then (None, managementLqi nextStartIndex s1)
           else (None, demoDone (dumpNodes s1))))"

text \<open>
  \<open>handleFrame\<close>, lines 143 to 199, in its three consecutive statements. First, lines 154
  to 157: a frame of type \<open>APS_DATA_INDICATION\<close> or \<open>APS_DATA_CONFIRM\<close> clears the flag.
\<close>

definition clearInProgress :: "frame \<Rightarrow> state \<Rightarrow> state" where
  "clearInProgress f s =
     (if ftype f = APS_DATA_INDICATION \<or> ftype f = APS_DATA_CONFIRM
      then s\<lparr>deviceStateUpdateInProgress := False\<rparr>
      else s)"

text \<open>Lines 159 to 173: the pending signals of the device state.\<close>

definition deviceStateSignals :: "frame \<Rightarrow> state \<Rightarrow> state" where
  "deviceStateSignals f s =
     (if dataConfirm f = Some True
      then sendFrame ApsDataConfirmFrame (s\<lparr>deviceStateUpdateInProgress := True\<rparr>)
      else if \<not> deviceStateUpdateInProgress s
      then (if dataIndication f = Some True
            then sendFrame ApsDataIndicationFrame (s\<lparr>deviceStateUpdateInProgress := True\<rparr>)
            else s)
      else s)"

text \<open>Lines 175 to 198: the frame's own type.\<close>

definition dispatchFrame :: "config \<Rightarrow> frame \<Rightarrow> state \<Rightarrow> error option \<times> state" where
  "dispatchFrame cfg f s =
     (if ftype f = READ_PARAMETER
      then (if paramIdx s < length (PARAM cfg)
            then (let pid = PARAM cfg ! paramIdx s;
                      name = fieldName cfg pid;
                      s1 = s\<lparr>props := (props s)(name := property f name)\<rparr>;
                      s2 = s1\<lparr>paramIdx := paramIdx s1 + 1\<rparr>
                  in if paramIdx s2 = length (PARAM cfg)
                     then (case dumpParameters cfg s2 of
                             (Some e, s3) \<Rightarrow> (Some e, s3)
                           | (None, s3) \<Rightarrow>
                               (None, sendFrame (ZdoFrame None (props s3 ''macAddress'') ''0000''
                                                   MANAGEMENT_LQI_REQUEST 0) s3))
                     else (None, readParameter cfg (paramIdx s2) s2))
            else (None, s))
      else if ftype f = APS_DATA_INDICATION
      then (if clusterId f = MANAGEMENT_LQI_RESPONSE
            then handleManagementLqiResponse f s
            else (None, s))
      else (None, s))"

definition handleFrame :: "config \<Rightarrow> frame \<Rightarrow> state \<Rightarrow> error option \<times> state" where
  "handleFrame cfg f s = dispatchFrame cfg f (deviceStateSignals f (clearInProgress f s))"

text \<open>
  The handler the constructor attaches (lines 87 to 95) catches what \<open>handleFrame\<close>
  raises and prints it; the object keeps the state reached at the raise. A run feeds
  the frames in their order of arrival.
\<close>

definition onFrame :: "config \<Rightarrow> state \<Rightarrow> frame \<Rightarrow> state" where
  "onFrame cfg s f = snd (handleFrame cfg f s)"

definition run :: "config \<Rightarrow> frame list \<Rightarrow> state" where
  "run cfg fs = foldl (onFrame cfg) (readParameters cfg constructor) fs"

subsection \<open>Notions the claims are stated with\<close>

text \<open>
  The request \<open>handleFrame\<close> builds at line 183, when the last parameter has been read:
  among the frames written it is the one \<open>zdo.makeFrame\<close> was given no \<open>type\<close> for.
\<close>

definition isFirstRequest :: "out_frame \<Rightarrow> bool" where
  "isFirstRequest fr = (case fr of ZdoFrame t d64 d16 c i \<Rightarrow> t = None | _ \<Rightarrow> False)"

text \<open>
  Every entry of a registry refers to an allocated node that carries the entry's key as
  its address.
\<close>

definition keyed :: "state \<Rightarrow> bool" where
  "keyed s \<longleftrightarrow>
     (\<forall>a r. node16 s a = Some r \<longrightarrow> r < length (heap s) \<and> node_addr16 (heap s ! r) = a) \<and>
     (\<forall>b r. node64 s b = Some r \<longrightarrow> r < length (heap s) \<and> node_addr64 (heap s ! r) = b)"





subsection \<open>Concrete instances\<close>

text \<open>
  An instance of the descriptor table: \<open>macAddress\<close> is the name the example itself reads
  (lines 184 and 204); the other names follow the same pattern.
\<close>

definition exampleFieldName :: "param_id \<Rightarrow> string" where
  "exampleFieldName p =
     (case p of
        MAC_ADDRESS \<Rightarrow> ''macAddress''
      | NETWORK_PANID16 \<Rightarrow> ''networkPanId16''
      | NETWORK_ADDR16 \<Rightarrow> ''networkAddr16''
      | NETWORK_PANID64 \<Rightarrow> ''networkPanId64''
      | APS_DESIGNATED_COORDINATOR \<Rightarrow> ''apsDesignatedCoordinator''
      | SCAN_CHANNELS \<Rightarrow> ''scanChannels''
      | APS_PANID64 \<Rightarrow> ''apsPanId64''
      | TRUST_CENTER_ADDR64 \<Rightarrow> ''trustCenterAddr64''
      | SECURITY_MODE \<Rightarrow> ''securityMode''
      | NETWORK_KEY \<Rightarrow> ''networkKey''
      | OPERATING_CHANNEL \<Rightarrow> ''operatingChannel''
      | PROTOCOL_VERSION \<Rightarrow> ''protocolVersion''
      | NETWORK_UPDATE_ID \<Rightarrow> ''networkUpdateId'')"

definition exampleConfig :: config where
  "exampleConfig = \<lparr>PARAM = PARAM_table, fieldName = exampleFieldName\<rparr>"

text \<open>A frame of a given type with no pending signal and no payload.\<close>

definition plainFrame :: "frame_type \<Rightarrow> frame" where
  "plainFrame t =
     \<lparr>ftype = t, dataConfirm = None, dataIndication = None, property = Map.empty,
      clusterId = 0, startIndex = 0, numEntries = 0, numEntriesThisResponse = 0,
      neighbors = []\<rparr>"

text \<open>A parameter-read response whose device state announces a pending confirmation.\<close>

definition pendingConfirmRead :: frame where
  "pendingConfirmRead =
     (plainFrame READ_PARAMETER)
       \<lparr>dataConfirm := Some True,
        property := [''macAddress'' \<mapsto> Str ''00212effff001234'']\<rparr>"

text \<open>A frame of another type (a device-state frame) announcing a pending confirmation.\<close>

definition pendingConfirmState :: frame where
  "pendingConfirmState = (plainFrame (OTHER_TYPE 7))\<lparr>dataConfirm := Some True\<rparr>"

text \<open>A frame of that type announcing a pending indication instead.\<close>

definition pendingIndicationState :: frame where
  "pendingIndicationState = (plainFrame (OTHER_TYPE 7))\<lparr>dataIndication := Some True\<rparr>"

text \<open>A data-confirm frame whose device state announces both pending signals.\<close>

definition bothSignalsConfirm :: frame where
  "bothSignalsConfirm =
     (plainFrame APS_DATA_CONFIRM)\<lparr>dataConfirm := Some True, dataIndication := Some True\<rparr>"

text \<open>A data-confirm frame whose device state announces a pending indication only.\<close>

definition pendingIndicationConfirm :: frame where
  "pendingIndicationConfirm = (plainFrame APS_DATA_CONFIRM)\<lparr>dataIndication := Some True\<rparr>"

text \<open>The configuration with no parameter to read.\<close>

definition emptyConfig :: config where
  "emptyConfig = \<lparr>PARAM = [], fieldName = exampleFieldName\<rparr>"

text \<open>The \<open>k\<close>-th entry of a neighbour table of up to a hundred devices.\<close>

definition exampleNeighbor :: "nat \<Rightarrow> neighbor" where
  "exampleNeighbor k =
     \<lparr>addr64 = ''00212effff0000'' @ [char_of (48 + k div 10), char_of (48 + k mod 10)],
      addr16 = ''00'' @ [char_of (48 + k div 10), char_of (48 + k mod 10)]\<rparr>"

text \<open>
  A Management-LQI response: a data indication on the response cluster, with its
  pagination counters and its entries.
\<close>

definition lqiResponse :: "nat \<Rightarrow> nat \<Rightarrow> nat \<Rightarrow> neighbor list \<Rightarrow> frame" where
  "lqiResponse start n tot nbs =
     (plainFrame APS_DATA_INDICATION)
       \<lparr>clusterId := MANAGEMENT_LQI_RESPONSE, startIndex := start, numEntries := tot,
        numEntriesThisResponse := n, neighbors := nbs\<rparr>"

text \<open>The three pages of a table of twelve entries, returned five, five and two at a time.\<close>

definition page1 :: frame where
  "page1 = lqiResponse 0 5 12 (map exampleNeighbor [0..<5])"

definition page2 :: frame where
  "page2 = lqiResponse 5 5 12 (map exampleNeighbor [5..<10])"

definition page3 :: frame where
  "page3 = lqiResponse 10 2 12 (map exampleNeighbor [10..<12])"

text \<open>Two devices.\<close>

definition nodeA :: neighbor where
  "nodeA = \<lparr>addr64 = ''00212effff001111'', addr16 = ''1a2b''\<rparr>"

definition nodeB :: neighbor where
  "nodeB = \<lparr>addr64 = ''00212effff002222'', addr16 = ''3c4d''\<rparr>"


text \<open>A table of two distinct devices, and a table with two entries for one device.\<close>

definition twoNodes :: frame where
  "twoNodes = lqiResponse 0 2 2 [nodeA, nodeB]"


section \<open>What each method leaves alone\<close>

lemma sendFrame_proj [simp]:
  "paramIdx (sendFrame fr s) = paramIdx s"
  "deviceStateUpdateInProgress (sendFrame fr s) = deviceStateUpdateInProgress s"
  "props (sendFrame fr s) = props s"
  "heap (sendFrame fr s) = heap s"
  "node16 (sendFrame fr s) = node16 s"
  "node64 (sendFrame fr s) = node64 s"
  "sent (sendFrame fr s) = sent s @ [fr]"
  "console (sendFrame fr s) = console s"
  "closed (sendFrame fr s) = closed s"
  by (simp_all add: sendFrame_def)

lemma clearInProgress_proj [simp]:
  "paramIdx (clearInProgress f s) = paramIdx s"
  "props (clearInProgress f s) = props s"
  "heap (clearInProgress f s) = heap s"
  "node16 (clearInProgress f s) = node16 s"
  "node64 (clearInProgress f s) = node64 s"
  "sent (clearInProgress f s) = sent s"
  "console (clearInProgress f s) = console s"
  "closed (clearInProgress f s) = closed s"
  by (simp_all add: clearInProgress_def)

lemma clearInProgress_flag:
  "deviceStateUpdateInProgress (clearInProgress f s) =
     (deviceStateUpdateInProgress s \<and> ftype f \<noteq> APS_DATA_INDICATION \<and> ftype f \<noteq> APS_DATA_CONFIRM)"
  by (simp add: clearInProgress_def)

lemma deviceStateSignals_proj [simp]:
  "paramIdx (deviceStateSignals f s) = paramIdx s"
  "props (deviceStateSignals f s) = props s"
  "heap (deviceStateSignals f s) = heap s"
  "node16 (deviceStateSignals f s) = node16 s"
  "node64 (deviceStateSignals f s) = node64 s"
  "console (deviceStateSignals f s) = console s"
  "closed (deviceStateSignals f s) = closed s"
  by (simp_all add: deviceStateSignals_def)

lemma managementLqi_proj [simp]:
  "paramIdx (managementLqi n s) = paramIdx s"
  "deviceStateUpdateInProgress (managementLqi n s) = deviceStateUpdateInProgress s"
  "props (managementLqi n s) = props s"
  "heap (managementLqi n s) = heap s"
  "node16 (managementLqi n s) = node16 s"
  "node64 (managementLqi n s) = node64 s"
  "sent (managementLqi n s) =
     sent s @ [ZdoFrame (Some APS_DATA_REQUEST) (props s ''macAddress'') ''0000''
                 MANAGEMENT_LQI_REQUEST n]"
  "console (managementLqi n s) = console s"
  "closed (managementLqi n s) = closed s"
  by (simp_all add: managementLqi_def)

lemma readParameter_proj [simp]:
  "paramIdx (readParameter cfg i s) = paramIdx s"
  "deviceStateUpdateInProgress (readParameter cfg i s) = deviceStateUpdateInProgress s"
  "props (readParameter cfg i s) = props s"
  "heap (readParameter cfg i s) = heap s"
  "node16 (readParameter cfg i s) = node16 s"
  "node64 (readParameter cfg i s) = node64 s"
  "console (readParameter cfg i s) = console s"
  "closed (readParameter cfg i s) = closed s"
  by (simp_all add: readParameter_def)

lemma registerNeighbor_proj [simp]:
  "paramIdx (registerNeighbor nb s) = paramIdx s"
  "deviceStateUpdateInProgress (registerNeighbor nb s) = deviceStateUpdateInProgress s"
  "props (registerNeighbor nb s) = props s"
  "sent (registerNeighbor nb s) = sent s"
  "console (registerNeighbor nb s) = console s"
  "closed (registerNeighbor nb s) = closed s"
  by (simp_all add: registerNeighbor_def Let_def)

lemma registerLoop_proj:
  "paramIdx (snd (registerLoop f i s)) = paramIdx s \<and>
   deviceStateUpdateInProgress (snd (registerLoop f i s)) = deviceStateUpdateInProgress s \<and>
   props (snd (registerLoop f i s)) = props s \<and>
   sent (snd (registerLoop f i s)) = sent s \<and>
   console (snd (registerLoop f i s)) = console s \<and>
   closed (snd (registerLoop f i s)) = closed s"
proof (induction f i s rule: registerLoop.induct)
  case (1 f idx s)
  show ?case
  proof (cases "idx < numEntriesThisResponse f \<and> idx < length (neighbors f)")
    case True
    with 1 show ?thesis by (simp add: registerLoop.simps [of f idx s])
  next
    case False
    then show ?thesis by (auto simp add: registerLoop.simps [of f idx s])
  qed
qed

lemma dumpParametersFrom_proj:
  "paramIdx (snd (dumpParametersFrom cfg ps s)) = paramIdx s \<and>
   deviceStateUpdateInProgress (snd (dumpParametersFrom cfg ps s)) = deviceStateUpdateInProgress s \<and>
   props (snd (dumpParametersFrom cfg ps s)) = props s \<and>
   heap (snd (dumpParametersFrom cfg ps s)) = heap s \<and>
   node16 (snd (dumpParametersFrom cfg ps s)) = node16 s \<and>
   node64 (snd (dumpParametersFrom cfg ps s)) = node64 s \<and>
   sent (snd (dumpParametersFrom cfg ps s)) = sent s \<and>
   closed (snd (dumpParametersFrom cfg ps s)) = closed s"
  by (induction ps arbitrary: s) simp_all

lemma handleManagementLqiResponse_proj:
  "paramIdx (snd (handleManagementLqiResponse f s)) = paramIdx s \<and>
   deviceStateUpdateInProgress (snd (handleManagementLqiResponse f s)) =
     deviceStateUpdateInProgress s \<and>
   props (snd (handleManagementLqiResponse f s)) = props s"
  using registerLoop_proj [of f 0 s]
  by (cases "registerLoop f 0 s")
     (auto simp add: handleManagementLqiResponse_def Let_def demoDone_def dumpNodes_def
           split: option.splits)

lemma handleManagementLqiResponse_sent:
  "\<exists>rest. sent (snd (handleManagementLqiResponse f s)) = sent s @ rest"
  using registerLoop_proj [of f 0 s]
  by (cases "registerLoop f 0 s")
     (auto simp add: handleManagementLqiResponse_def Let_def demoDone_def dumpNodes_def
           split: option.splits)

lemma dumpParameters_proj:
  "paramIdx (snd (dumpParameters cfg s)) = paramIdx s \<and>
   deviceStateUpdateInProgress (snd (dumpParameters cfg s)) = deviceStateUpdateInProgress s \<and>
   props (snd (dumpParameters cfg s)) = props s \<and>
   heap (snd (dumpParameters cfg s)) = heap s \<and>
   node16 (snd (dumpParameters cfg s)) = node16 s \<and>
   node64 (snd (dumpParameters cfg s)) = node64 s \<and>
   sent (snd (dumpParameters cfg s)) = sent s \<and>
   closed (snd (dumpParameters cfg s)) = closed s"
  unfolding dumpParameters_def by (rule dumpParametersFrom_proj)

lemma dispatchFrame_paramIdx:
  "paramIdx (snd (dispatchFrame cfg f s)) =
     (if ftype f = READ_PARAMETER \<and> paramIdx s < length (PARAM cfg)
      then paramIdx s + 1 else paramIdx s)"
proof (cases "ftype f = READ_PARAMETER")
  case True
  show ?thesis
  proof (cases "paramIdx s < length (PARAM cfg)")
    case lt: True
    define s2 where "s2 = s\<lparr>props := (props s)(fieldName cfg (PARAM cfg ! paramIdx s) :=
        property f (fieldName cfg (PARAM cfg ! paramIdx s))), paramIdx := paramIdx s + 1\<rparr>"
    have p2: "paramIdx s2 = paramIdx s + 1" by (simp add: s2_def)
    show ?thesis
      using True lt dumpParameters_proj [of cfg s2] p2
      by (cases "dumpParameters cfg s2")
         (auto simp add: dispatchFrame_def Let_def s2_def split: option.splits)
  next
    case False
    with True show ?thesis by (simp add: dispatchFrame_def)
  qed
next
  case False
  then show ?thesis
    using handleManagementLqiResponse_proj [of f s] by (simp add: dispatchFrame_def)
qed

lemma dispatchFrame_flag:
  "deviceStateUpdateInProgress (snd (dispatchFrame cfg f s)) = deviceStateUpdateInProgress s"
proof (cases "ftype f = READ_PARAMETER \<and> paramIdx s < length (PARAM cfg)")
  case True
  define s2 where "s2 = s\<lparr>props := (props s)(fieldName cfg (PARAM cfg ! paramIdx s) :=
      property f (fieldName cfg (PARAM cfg ! paramIdx s))), paramIdx := paramIdx s + 1\<rparr>"
  have p2: "deviceStateUpdateInProgress s2 = deviceStateUpdateInProgress s" by (simp add: s2_def)
  show ?thesis
    using True dumpParameters_proj [of cfg s2] p2
    by (cases "dumpParameters cfg s2")
       (auto simp add: dispatchFrame_def Let_def s2_def split: option.splits)
next
  case False
  then show ?thesis
    using handleManagementLqiResponse_proj [of f s] by (auto simp add: dispatchFrame_def)
qed

lemma dispatchFrame_sent:
  "\<exists>rest. sent (snd (dispatchFrame cfg f s)) = sent s @ rest"
proof (cases "ftype f = READ_PARAMETER \<and> paramIdx s < length (PARAM cfg)")
  case True
  define s2 where "s2 = s\<lparr>props := (props s)(fieldName cfg (PARAM cfg ! paramIdx s) :=
      property f (fieldName cfg (PARAM cfg ! paramIdx s))), paramIdx := paramIdx s + 1\<rparr>"
  have p2: "sent s2 = sent s" by (simp add: s2_def)
  show ?thesis
    using True dumpParameters_proj [of cfg s2] p2
    by (cases "dumpParameters cfg s2")
       (auto simp add: dispatchFrame_def Let_def s2_def readParameter_def managementLqi_def
             split: option.splits)
next
  case False
  then show ?thesis
    using handleManagementLqiResponse_sent [of f s] by (auto simp add: dispatchFrame_def)
qed

section \<open>Runs and the cursor\<close>

lemma readParameters_proj:
  "paramIdx (readParameters cfg s) = 0"
  by (simp add: readParameters_def Let_def)

lemma run_Nil: "run cfg [] = readParameters cfg constructor"
  by (simp add: run_def)

lemma run_snoc: "run cfg (fs @ [f]) = snd (handleFrame cfg f (run cfg fs))"
  by (simp add: run_def onFrame_def)

lemma handleFrame_paramIdx:
  "paramIdx (snd (handleFrame cfg f s)) =
     (if ftype f = READ_PARAMETER \<and> paramIdx s < length (PARAM cfg)
      then paramIdx s + 1 else paramIdx s)"
  by (simp add: handleFrame_def dispatchFrame_paramIdx)

lemma run_paramIdx_le: "paramIdx (run cfg fs) \<le> length (PARAM cfg)"
proof (induction fs rule: rev_induct)
  case Nil
  show ?case by (simp add: run_Nil readParameters_proj)
next
  case (snoc f fs)
  then show ?case by (simp add: run_snoc handleFrame_paramIdx)
qed

lemma exampleConfig_sel:
  "PARAM exampleConfig = PARAM_table"
  "fieldName exampleConfig = exampleFieldName"
  "length (PARAM exampleConfig) = 13"
  by (simp_all add: exampleConfig_def PARAM_table_def)

lemma run_example_Nil:
  "run exampleConfig [] =
     \<lparr>paramIdx = 0, deviceStateUpdateInProgress = False, props = Map.empty,
      heap = [], node16 = Map.empty, node64 = Map.empty,
      sent = [ReadParameterFrame MAC_ADDRESS], console = [], closed = False\<rparr>"
  by (simp add: run_def readParameters_def readParameter_def constructor_def sendFrame_def
        exampleConfig_def PARAM_table_def)

lemma handleFrame_other:
  assumes "ftype f \<noteq> READ_PARAMETER" and "ftype f \<noteq> APS_DATA_INDICATION"
  shows "handleFrame cfg f s = (None, deviceStateSignals f (clearInProgress f s))"
  using assms by (simp add: handleFrame_def dispatchFrame_def)

lemma pendingConfirmState_sel:
  "ftype pendingConfirmState = OTHER_TYPE 7"
  "dataConfirm pendingConfirmState = Some True"
  by (simp_all add: pendingConfirmState_def plainFrame_def)

lemma run_example_pending:
  "run exampleConfig [pendingConfirmState] =
     \<lparr>paramIdx = 0, deviceStateUpdateInProgress = True, props = Map.empty,
      heap = [], node16 = Map.empty, node64 = Map.empty,
      sent = [ReadParameterFrame MAC_ADDRESS, ApsDataConfirmFrame], console = [],
      closed = False\<rparr>"
  using run_snoc [of exampleConfig "[]" pendingConfirmState]
  by (simp add: run_example_Nil handleFrame_other pendingConfirmState_sel
        clearInProgress_def deviceStateSignals_def sendFrame_def)

lemma bothSignalsConfirm_sel:
  "ftype bothSignalsConfirm = APS_DATA_CONFIRM"
  "dataConfirm bothSignalsConfirm = Some True"
  "dataIndication bothSignalsConfirm = Some True"
  by (simp_all add: bothSignalsConfirm_def plainFrame_def)

lemma pendingIndicationConfirm_sel:
  "ftype pendingIndicationConfirm = APS_DATA_CONFIRM"
  "dataConfirm pendingIndicationConfirm = None"
  "dataIndication pendingIndicationConfirm = Some True"
  by (simp_all add: pendingIndicationConfirm_def plainFrame_def)

section \<open>The concrete frames\<close>

lemma plainFrame_sel:
  "ftype (plainFrame t) = t"
  "dataConfirm (plainFrame t) = None"
  "dataIndication (plainFrame t) = None"
  "clusterId (plainFrame t) = 0"
  by (simp_all add: plainFrame_def)

lemma pendingConfirmRead_sel:
  "ftype pendingConfirmRead = READ_PARAMETER"
  "dataConfirm pendingConfirmRead = Some True"
  by (simp_all add: pendingConfirmRead_def plainFrame_def)

lemma lqiResponse_sel:
  "ftype (lqiResponse a b c ns) = APS_DATA_INDICATION"
  "dataConfirm (lqiResponse a b c ns) = None"
  "dataIndication (lqiResponse a b c ns) = None"
  "clusterId (lqiResponse a b c ns) = MANAGEMENT_LQI_RESPONSE"
  "startIndex (lqiResponse a b c ns) = a"
  "numEntriesThisResponse (lqiResponse a b c ns) = b"
  "numEntries (lqiResponse a b c ns) = c"
  "neighbors (lqiResponse a b c ns) = ns"
  by (simp_all add: lqiResponse_def plainFrame_def)

section \<open>The registration loop\<close>

lemma registerLoop_in_range:
  "numEntriesThisResponse f \<le> length (neighbors f) \<Longrightarrow>
   registerLoop f i s =
     (None, foldl (\<lambda>s nb. registerNeighbor nb s) s
              (drop i (take (numEntriesThisResponse f) (neighbors f))))"
proof (induction f i s rule: registerLoop.induct)
  case (1 f idx s)
  show ?case
  proof (cases "idx < numEntriesThisResponse f")
    case True
    then have lt: "idx < length (neighbors f)" using "1.prems" by simp
    have "drop idx (take (numEntriesThisResponse f) (neighbors f)) =
          neighbors f ! idx # drop (Suc idx) (take (numEntriesThisResponse f) (neighbors f))"
      using True lt by (simp add: Cons_nth_drop_Suc [symmetric])
    with True lt "1.IH" "1.prems" show ?thesis
      by (simp add: registerLoop.simps [of f idx s])
  next
    case False
    then show ?thesis by (simp add: registerLoop.simps [of f idx s])
  qed
qed

lemma registerLoop_out_of_range:
  "length (neighbors f) < numEntriesThisResponse f \<Longrightarrow> i \<le> length (neighbors f) \<Longrightarrow>
   fst (registerLoop f i s) = Some TypeError"
proof (induction f i s rule: registerLoop.induct)
  case (1 f idx s)
  show ?case
  proof (cases "idx < length (neighbors f)")
    case True
    with 1 show ?thesis by (simp add: registerLoop.simps [of f idx s])
  next
    case False
    have "registerLoop f idx s = (Some TypeError, s)"
      apply (subst registerLoop.simps)
      using False "1.prems" by simp
    then show ?thesis by simp
  qed
qed

lemma handleFrame_lqi:
  assumes "ftype f = APS_DATA_INDICATION" and "clusterId f = MANAGEMENT_LQI_RESPONSE"
  shows "handleFrame cfg f s =
           handleManagementLqiResponse f
             (deviceStateSignals f (s\<lparr>deviceStateUpdateInProgress := False\<rparr>))"
  using assms by (simp add: handleFrame_def dispatchFrame_def clearInProgress_def)

lemma deviceStateSignals_sent_cleared:
  "sent (deviceStateSignals f (s\<lparr>deviceStateUpdateInProgress := False\<rparr>)) =
     sent s @ (if dataConfirm f = Some True then [ApsDataConfirmFrame]
               else if dataIndication f = Some True then [ApsDataIndicationFrame] else [])"
  by (simp add: deviceStateSignals_def)

lemma handleFrame_props:
  "ftype f \<noteq> READ_PARAMETER \<Longrightarrow> props (snd (handleFrame cfg f s)) = props s"
  using handleManagementLqiResponse_proj [of f "deviceStateSignals f (clearInProgress f s)"]
  by (simp add: handleFrame_def dispatchFrame_def)

lemma run_empty_Nil:
  "sent (run emptyConfig []) =
     [ZdoFrame (Some APS_DATA_REQUEST) None ''0000'' MANAGEMENT_LQI_REQUEST 0]"
  "closed (run emptyConfig []) = False"
  "props (run emptyConfig []) = Map.empty"
  "console (run emptyConfig []) = []"
  by (simp_all add: run_def readParameters_def readParameter_def managementLqi_def
        sendFrame_def constructor_def emptyConfig_def)

section \<open>The request that starts the walk\<close>

lemma firstRequest_simps [simp]:
  "isFirstRequest (ReadParameterFrame p) = False"
  "isFirstRequest ApsDataConfirmFrame = False"
  "isFirstRequest ApsDataIndicationFrame = False"
  "isFirstRequest (ZdoFrame t d64 d16 c i) = (t = None)"
  by (simp_all add: isFirstRequest_def)

lemma deviceStateSignals_first:
  "filter isFirstRequest (sent (deviceStateSignals f s)) = filter isFirstRequest (sent s)"
  by (simp add: deviceStateSignals_def)

lemma handleManagementLqiResponse_first:
  "filter isFirstRequest (sent (snd (handleManagementLqiResponse f s))) =
     filter isFirstRequest (sent s)"
  using registerLoop_proj [of f 0 s]
  by (cases "registerLoop f 0 s")
     (auto simp add: handleManagementLqiResponse_def Let_def demoDone_def dumpNodes_def
           split: option.splits)

lemma dispatchFrame_first:
  "length (filter isFirstRequest (sent (snd (dispatchFrame cfg f s)))) \<le>
     length (filter isFirstRequest (sent s)) +
     (if ftype f = READ_PARAMETER \<and> paramIdx s + 1 = length (PARAM cfg) then 1 else 0)"
proof (cases "ftype f = READ_PARAMETER \<and> paramIdx s < length (PARAM cfg)")
  case True
  define s2 where "s2 = s\<lparr>props := (props s)(fieldName cfg (PARAM cfg ! paramIdx s) :=
      property f (fieldName cfg (PARAM cfg ! paramIdx s))), paramIdx := paramIdx s + 1\<rparr>"
  have p2: "sent s2 = sent s" by (simp add: s2_def)
  show ?thesis
    using True dumpParameters_proj [of cfg s2] p2
    by (cases "dumpParameters cfg s2")
       (auto simp add: dispatchFrame_def Let_def s2_def readParameter_def
             split: option.splits)
next
  case False
  then show ?thesis
    using handleManagementLqiResponse_first [of f s] by (auto simp add: dispatchFrame_def)
qed

lemma handleFrame_first:
  "length (filter isFirstRequest (sent (snd (handleFrame cfg f s)))) \<le>
     length (filter isFirstRequest (sent s)) +
     (if ftype f = READ_PARAMETER \<and> paramIdx s + 1 = length (PARAM cfg) then 1 else 0)"
  using dispatchFrame_first [of cfg f "deviceStateSignals f (clearInProgress f s)"]
  by (simp add: handleFrame_def deviceStateSignals_first)

lemma run_first:
  "length (filter isFirstRequest (sent (run cfg fs))) \<le>
     (if paramIdx (run cfg fs) < length (PARAM cfg) then 0 else 1)"
proof (induction fs rule: rev_induct)
  case Nil
  show ?case
    by (simp add: run_Nil readParameters_def readParameter_def constructor_def Let_def)
next
  case (snoc f fs)
  show ?case
    using snoc handleFrame_first [of cfg f "run cfg fs"] run_paramIdx_le [of cfg fs]
    by (simp add: run_snoc handleFrame_paramIdx split: if_splits)
qed

lemma run_paramIdx_reads:
  "\<forall>f\<in>set fs. ftype f = READ_PARAMETER \<Longrightarrow>
   paramIdx (run cfg fs) = min (length fs) (length (PARAM cfg))"
proof (induction fs rule: rev_induct)
  case Nil
  show ?case by (simp add: run_Nil readParameters_proj)
next
  case (snoc f fs)
  then show ?case by (auto simp add: run_snoc handleFrame_paramIdx)
qed

section \<open>The registries\<close>


lemma registerNeighbor_registry:
  "heap (registerNeighbor nb s) = heap s @ [Node (addr64 nb) (addr16 nb)]"
  "node16 (registerNeighbor nb s) = (node16 s)(addr16 nb \<mapsto> length (heap s))"
  "node64 (registerNeighbor nb s) = (node64 s)(addr64 nb \<mapsto> length (heap s))"
  by (simp_all add: registerNeighbor_def Let_def)

lemma registerNeighbor_entry:
  assumes k: "keyed s"
  shows "node16 (registerNeighbor nb s) a = Some r \<Longrightarrow>
           r < length (heap (registerNeighbor nb s)) \<and>
           (if a = addr16 nb
            then r = length (heap s) \<and>
                 heap (registerNeighbor nb s) ! r = Node (addr64 nb) (addr16 nb)
            else node16 s a = Some r \<and> r < length (heap s) \<and>
                 heap (registerNeighbor nb s) ! r = heap s ! r)"
    and "node64 (registerNeighbor nb s) b = Some r \<Longrightarrow>
           r < length (heap (registerNeighbor nb s)) \<and>
           (if b = addr64 nb
            then r = length (heap s) \<and>
                 heap (registerNeighbor nb s) ! r = Node (addr64 nb) (addr16 nb)
            else node64 s b = Some r \<and> r < length (heap s) \<and>
                 heap (registerNeighbor nb s) ! r = heap s ! r)"
proof -
  assume a: "node16 (registerNeighbor nb s) a = Some r"
  show "r < length (heap (registerNeighbor nb s)) \<and>
        (if a = addr16 nb
         then r = length (heap s) \<and>
              heap (registerNeighbor nb s) ! r = Node (addr64 nb) (addr16 nb)
         else node16 s a = Some r \<and> r < length (heap s) \<and>
              heap (registerNeighbor nb s) ! r = heap s ! r)"
  proof (cases "a = addr16 nb")
    case True
    with a have "r = length (heap s)" by (simp add: registerNeighbor_registry)
    with True show ?thesis by (simp add: registerNeighbor_registry)
  next
    case False
    with a have old: "node16 s a = Some r" by (simp add: registerNeighbor_registry)
    with k have "r < length (heap s)" by (simp add: keyed_def)
    with False old show ?thesis by (simp add: registerNeighbor_registry nth_append)
  qed
next
  assume b: "node64 (registerNeighbor nb s) b = Some r"
  show "r < length (heap (registerNeighbor nb s)) \<and>
        (if b = addr64 nb
         then r = length (heap s) \<and>
              heap (registerNeighbor nb s) ! r = Node (addr64 nb) (addr16 nb)
         else node64 s b = Some r \<and> r < length (heap s) \<and>
              heap (registerNeighbor nb s) ! r = heap s ! r)"
  proof (cases "b = addr64 nb")
    case True
    with b have "r = length (heap s)" by (simp add: registerNeighbor_registry)
    with True show ?thesis by (simp add: registerNeighbor_registry)
  next
    case False
    with b have old: "node64 s b = Some r" by (simp add: registerNeighbor_registry)
    with k have "r < length (heap s)" by (simp add: keyed_def)
    with False old show ?thesis by (simp add: registerNeighbor_registry nth_append)
  qed
qed

lemma keyed_registerNeighbor:
  assumes k: "keyed s"
  shows "keyed (registerNeighbor nb s)"
proof -
  have "r < length (heap (registerNeighbor nb s)) \<and>
        node_addr16 (heap (registerNeighbor nb s) ! r) = a"
    if "node16 (registerNeighbor nb s) a = Some r" for a r
    using registerNeighbor_entry(1) [OF k that] k
    by (auto simp add: keyed_def split: if_splits)
  moreover
  have "r < length (heap (registerNeighbor nb s)) \<and>
        node_addr64 (heap (registerNeighbor nb s) ! r) = b"
    if "node64 (registerNeighbor nb s) b = Some r" for b r
    using registerNeighbor_entry(2) [OF k that] k
    by (auto simp add: keyed_def split: if_splits)
  ultimately show ?thesis unfolding keyed_def by blast
qed







lemma handleManagementLqiResponse_registry:
  "heap (snd (handleManagementLqiResponse f s)) = heap (snd (registerLoop f 0 s)) \<and>
   node16 (snd (handleManagementLqiResponse f s)) = node16 (snd (registerLoop f 0 s)) \<and>
   node64 (snd (handleManagementLqiResponse f s)) = node64 (snd (registerLoop f 0 s))"
  by (cases "registerLoop f 0 s")
     (auto simp add: handleManagementLqiResponse_def Let_def demoDone_def dumpNodes_def
           split: option.splits)








section \<open>The frames the dispatch writes\<close>

lemma pendingIndicationState_sel:
  "ftype pendingIndicationState = OTHER_TYPE 7"
  "dataConfirm pendingIndicationState = None"
  "dataIndication pendingIndicationState = Some True"
  by (simp_all add: pendingIndicationState_def plainFrame_def)

lemma handleManagementLqiResponse_no_signal:
  "\<exists>rest. sent (snd (handleManagementLqiResponse f s)) = sent s @ rest \<and>
          ApsDataConfirmFrame \<notin> set rest \<and> ApsDataIndicationFrame \<notin> set rest"
  using registerLoop_proj [of f 0 s]
  by (cases "registerLoop f 0 s")
     (auto simp add: handleManagementLqiResponse_def Let_def demoDone_def dumpNodes_def
           split: option.splits)

lemma dispatchFrame_no_signal:
  "\<exists>rest. sent (snd (dispatchFrame cfg f s)) = sent s @ rest \<and>
          ApsDataConfirmFrame \<notin> set rest \<and> ApsDataIndicationFrame \<notin> set rest"
proof (cases "ftype f = READ_PARAMETER \<and> paramIdx s < length (PARAM cfg)")
  case True
  define s2 where "s2 = s\<lparr>props := (props s)(fieldName cfg (PARAM cfg ! paramIdx s) :=
      property f (fieldName cfg (PARAM cfg ! paramIdx s))), paramIdx := paramIdx s + 1\<rparr>"
  have p2: "sent s2 = sent s" by (simp add: s2_def)
  show ?thesis
    using True dumpParameters_proj [of cfg s2] p2
    by (cases "dumpParameters cfg s2")
       (auto simp add: dispatchFrame_def Let_def s2_def readParameter_def managementLqi_def
             split: option.splits)
next
  case False
  then show ?thesis
    using handleManagementLqiResponse_no_signal [of f s] by (auto simp add: dispatchFrame_def)
qed

lemma run_example_Nil_sel:
  "deviceStateUpdateInProgress (run exampleConfig []) = False"
  "sent (run exampleConfig []) = [ReadParameterFrame MAC_ADDRESS]"
  "paramIdx (run exampleConfig []) = 0"
  "closed (run exampleConfig []) = False"
  "heap (run exampleConfig []) = []"
  by (simp_all add: run_example_Nil)

lemma run_example_pending_sel:
  "deviceStateUpdateInProgress (run exampleConfig [pendingConfirmState]) = True"
  "sent (run exampleConfig [pendingConfirmState]) =
     [ReadParameterFrame MAC_ADDRESS, ApsDataConfirmFrame]"
  by (simp_all add: run_example_pending)

section \<open>The claims\<close>

subsection \<open>C1: a pending confirmation on a parameter-read response\<close>

text \<open>
  C1 as stated: a frame that carries the pending-confirm signal and is a parameter-read
  response has its confirm signal handled and does not advance the parameter cursor.
  The statement fails on the code: lines 159 to 173 and lines 175 to 192 are two
  consecutive statements, and the second runs whatever the first did. At the first
  parameter-read response of a run, carrying the signal, the cursor goes from 0 to 1.
\<close>

theorem confirm_priority_counterexample:
  "dataConfirm pendingConfirmRead = Some True \<and>
   ftype pendingConfirmRead = READ_PARAMETER \<and>
   paramIdx (run exampleConfig []) = 0 \<and>
   paramIdx (snd (handleFrame exampleConfig pendingConfirmRead (run exampleConfig []))) = 1"
  by (simp add: handleFrame_paramIdx run_example_Nil pendingConfirmRead_def plainFrame_def
        exampleConfig_sel PARAM_table_def)

text \<open>
  C1 as amended: for every frame that carries the pending-confirm signal and is a
  parameter-read response arriving while the cursor is below the descriptor count,
  \<open>handleFrame\<close> first handles the signal (the flag is set and a confirmation frame is
  the first frame written) and then, in the same call, handles the response: the
  cursor advances by exactly one.
\<close>

theorem confirm_signal_then_parameter_read:
  assumes "dataConfirm f = Some True"
    and "ftype f = READ_PARAMETER"
    and "paramIdx s < length (PARAM cfg)"
  shows "deviceStateUpdateInProgress (snd (handleFrame cfg f s)) \<and>
         (\<exists>rest. sent (snd (handleFrame cfg f s)) = sent s @ ApsDataConfirmFrame # rest) \<and>
         paramIdx (snd (handleFrame cfg f s)) = paramIdx s + 1"
proof -
  let ?s1 = "deviceStateSignals f (clearInProgress f s)"
  have flag: "deviceStateUpdateInProgress ?s1"
    using assms(1) by (simp add: deviceStateSignals_def)
  have snt: "sent ?s1 = sent s @ [ApsDataConfirmFrame]"
    using assms(1) by (simp add: deviceStateSignals_def)
  obtain rest where "sent (snd (dispatchFrame cfg f ?s1)) = sent ?s1 @ rest"
    using dispatchFrame_sent by blast
  with snt have "sent (snd (handleFrame cfg f s)) = sent s @ ApsDataConfirmFrame # rest"
    by (simp add: handleFrame_def)
  moreover have "deviceStateUpdateInProgress (snd (handleFrame cfg f s))"
    using flag by (simp add: handleFrame_def dispatchFrame_flag)
  moreover have "paramIdx (snd (handleFrame cfg f s)) = paramIdx s + 1"
    using assms(2,3) by (simp add: handleFrame_paramIdx)
  ultimately show ?thesis by blast
qed

theorem confirm_signal_then_parameter_read_witness:
  "dataConfirm pendingConfirmRead = Some True \<and>
   ftype pendingConfirmRead = READ_PARAMETER \<and>
   paramIdx (run exampleConfig []) < length (PARAM exampleConfig) \<and>
   deviceStateUpdateInProgress
     (snd (handleFrame exampleConfig pendingConfirmRead (run exampleConfig []))) \<and>
   (\<exists>rest. sent (snd (handleFrame exampleConfig pendingConfirmRead (run exampleConfig []))) =
      sent (run exampleConfig []) @ ApsDataConfirmFrame # rest) \<and>
   paramIdx (snd (handleFrame exampleConfig pendingConfirmRead (run exampleConfig []))) =
     paramIdx (run exampleConfig []) + 1"
proof -
  have a: "dataConfirm pendingConfirmRead = Some True"
    by (simp add: pendingConfirmRead_def plainFrame_def)
  have b: "ftype pendingConfirmRead = READ_PARAMETER"
    by (simp add: pendingConfirmRead_def plainFrame_def)
  have c: "paramIdx (run exampleConfig []) < length (PARAM exampleConfig)"
    by (simp add: run_example_Nil exampleConfig_sel PARAM_table_def)
  show ?thesis using a b c confirm_signal_then_parameter_read [OF a b c] by blast
qed

subsection \<open>C2: the pending-confirm signal and the in-flight flag\<close>

text \<open>
  C2 as stated: a confirmation frame is written for a pending-confirm signal only when no
  confirmation is in flight. The statement fails on the code: the test of line 159 does
  not read the flag, which gates the pending-indication branch alone (line 165). A
  second frame with the signal, arriving while the flag is set, has its confirmation
  frame written.
\<close>

theorem confirm_gate_counterexample:
  "deviceStateUpdateInProgress (run exampleConfig [pendingConfirmState]) \<and>
   dataConfirm pendingConfirmState = Some True \<and>
   sent (snd (handleFrame exampleConfig pendingConfirmState
                (run exampleConfig [pendingConfirmState]))) =
     sent (run exampleConfig [pendingConfirmState]) @ [ApsDataConfirmFrame]"
  by (simp add: run_example_pending handleFrame_other pendingConfirmState_sel
        clearInProgress_def deviceStateSignals_def sendFrame_def)

text \<open>
  C2 as amended: for every frame carrying the pending-confirm signal, \<open>handleFrame\<close>
  sets the flag and writes one confirmation frame, the first frame the call writes,
  whether or not a confirmation is already in flight. The flag gates the
  pending-indication branch only: for a frame that carries the pending-indication signal
  and not the pending-confirm signal, a fetch-indication frame is written first and the
  flag set when no exchange is in flight (the flag is not set, or the frame's own type,
  \<open>APS_DATA_INDICATION\<close> or \<open>APS_DATA_CONFIRM\<close>, has just cleared it); while one is in
  flight, neither a confirmation nor a fetch-indication frame is written and the flag
  stays set. In all three cases the later frames of the call are requests of the
  dispatch, none of them a confirmation or fetch-indication frame.
\<close>

theorem confirm_ungated_indication_gated:
  "(dataConfirm f = Some True \<longrightarrow>
      deviceStateUpdateInProgress (snd (handleFrame cfg f s)) \<and>
      (\<exists>rest. sent (snd (handleFrame cfg f s)) = sent s @ ApsDataConfirmFrame # rest \<and>
         ApsDataConfirmFrame \<notin> set rest \<and> ApsDataIndicationFrame \<notin> set rest)) \<and>
   (dataConfirm f \<noteq> Some True \<and> dataIndication f = Some True \<and>
    \<not> (deviceStateUpdateInProgress s \<and> ftype f \<noteq> APS_DATA_INDICATION \<and>
       ftype f \<noteq> APS_DATA_CONFIRM) \<longrightarrow>
      deviceStateUpdateInProgress (snd (handleFrame cfg f s)) \<and>
      (\<exists>rest. sent (snd (handleFrame cfg f s)) = sent s @ ApsDataIndicationFrame # rest \<and>
         ApsDataConfirmFrame \<notin> set rest \<and> ApsDataIndicationFrame \<notin> set rest)) \<and>
   (dataConfirm f \<noteq> Some True \<and> dataIndication f = Some True \<and>
    deviceStateUpdateInProgress s \<and> ftype f \<noteq> APS_DATA_INDICATION \<and>
    ftype f \<noteq> APS_DATA_CONFIRM \<longrightarrow>
      deviceStateUpdateInProgress (snd (handleFrame cfg f s)) \<and>
      (\<exists>rest. sent (snd (handleFrame cfg f s)) = sent s @ rest \<and>
         ApsDataConfirmFrame \<notin> set rest \<and> ApsDataIndicationFrame \<notin> set rest))"
proof -
  let ?s0 = "clearInProgress f s"
  let ?s1 = "deviceStateSignals f ?s0"
  obtain rest where rest: "sent (snd (dispatchFrame cfg f ?s1)) = sent ?s1 @ rest"
    and quiet: "ApsDataConfirmFrame \<notin> set rest" "ApsDataIndicationFrame \<notin> set rest"
    using dispatchFrame_no_signal by blast
  have snt: "sent (snd (handleFrame cfg f s)) = sent ?s1 @ rest"
    using rest by (simp add: handleFrame_def)
  have flg: "deviceStateUpdateInProgress (snd (handleFrame cfg f s)) =
             deviceStateUpdateInProgress ?s1"
    by (simp add: handleFrame_def dispatchFrame_flag)
  have confirm: "deviceStateUpdateInProgress ?s1 \<and> sent ?s1 = sent s @ [ApsDataConfirmFrame]"
    if "dataConfirm f = Some True"
    using that by (simp add: deviceStateSignals_def)
  have fetch: "deviceStateUpdateInProgress ?s1 \<and> sent ?s1 = sent s @ [ApsDataIndicationFrame]"
    if "dataConfirm f \<noteq> Some True" and "dataIndication f = Some True"
      and "\<not> (deviceStateUpdateInProgress s \<and> ftype f \<noteq> APS_DATA_INDICATION \<and>
              ftype f \<noteq> APS_DATA_CONFIRM)"
    using that by (auto simp add: deviceStateSignals_def clearInProgress_def)
  have gated: "deviceStateUpdateInProgress ?s1 \<and> sent ?s1 = sent s"
    if "dataConfirm f \<noteq> Some True" and "deviceStateUpdateInProgress s"
      and "ftype f \<noteq> APS_DATA_INDICATION" and "ftype f \<noteq> APS_DATA_CONFIRM"
    using that by (simp add: deviceStateSignals_def clearInProgress_def)
  show ?thesis
    using snt flg quiet confirm fetch gated by auto
qed

theorem confirm_ungated_indication_gated_witness:
  "dataConfirm pendingConfirmState = Some True \<and>
   deviceStateUpdateInProgress (run exampleConfig [pendingConfirmState]) \<and>
   (\<exists>rest. sent (snd (handleFrame exampleConfig pendingConfirmState
                        (run exampleConfig [pendingConfirmState]))) =
      sent (run exampleConfig [pendingConfirmState]) @ ApsDataConfirmFrame # rest \<and>
      ApsDataConfirmFrame \<notin> set rest \<and> ApsDataIndicationFrame \<notin> set rest) \<and>
   dataConfirm pendingIndicationState \<noteq> Some True \<and>
   dataIndication pendingIndicationState = Some True \<and>
   ftype pendingIndicationState \<noteq> APS_DATA_INDICATION \<and>
   ftype pendingIndicationState \<noteq> APS_DATA_CONFIRM \<and>
   (\<exists>rest. sent (snd (handleFrame exampleConfig pendingIndicationState
                        (run exampleConfig [pendingConfirmState]))) =
      sent (run exampleConfig [pendingConfirmState]) @ rest \<and>
      ApsDataConfirmFrame \<notin> set rest \<and> ApsDataIndicationFrame \<notin> set rest) \<and>
   \<not> deviceStateUpdateInProgress (run exampleConfig []) \<and>
   deviceStateUpdateInProgress
     (snd (handleFrame exampleConfig pendingIndicationState (run exampleConfig []))) \<and>
   (\<exists>rest. sent (snd (handleFrame exampleConfig pendingIndicationState
                        (run exampleConfig []))) =
      sent (run exampleConfig []) @ ApsDataIndicationFrame # rest \<and>
      ApsDataConfirmFrame \<notin> set rest \<and> ApsDataIndicationFrame \<notin> set rest)"
proof -
  have a: "dataConfirm pendingConfirmState = Some True"
    by (simp add: pendingConfirmState_sel)
  have b: "deviceStateUpdateInProgress (run exampleConfig [pendingConfirmState])"
    by (simp add: run_example_pending_sel)
  have c: "dataConfirm pendingIndicationState \<noteq> Some True"
    "dataIndication pendingIndicationState = Some True"
    "ftype pendingIndicationState \<noteq> APS_DATA_INDICATION"
    "ftype pendingIndicationState \<noteq> APS_DATA_CONFIRM"
    by (simp_all add: pendingIndicationState_sel)
  have d: "\<not> deviceStateUpdateInProgress (run exampleConfig [])"
    by (simp add: run_example_Nil_sel)
  show ?thesis
    using a b c d
      confirm_ungated_indication_gated [of pendingConfirmState exampleConfig "run exampleConfig [pendingConfirmState]"]
      confirm_ungated_indication_gated [of pendingIndicationState exampleConfig
        "run exampleConfig [pendingConfirmState]"]
      confirm_ungated_indication_gated [of pendingIndicationState exampleConfig "run exampleConfig []"]
    by blast
qed

subsection \<open>C3: registering the same address pair twice\<close>

text \<open>
  C3 as stated: the second registration of a (short address, long address) pair keeps
  the existing \<open>Node\<close> and creates none, so that a \<open>Node\<close> is created once for each
  pair. The statement fails on the code: the loop body calls \<open>new Node\<close> for every entry
  without looking the addresses up (line 215), and overwrites both registry entries
  (lines 216 and 217). Registering one pair twice allocates two nodes, and the registry
  refers to the second where it referred to the first.
\<close>

theorem reregistration_allocates_counterexample:
  "heap (registerNeighbor nodeA (registerNeighbor nodeA constructor)) =
     [Node ''00212effff001111'' ''1a2b'', Node ''00212effff001111'' ''1a2b''] \<and>
   node16 (registerNeighbor nodeA constructor) ''1a2b'' = Some 0 \<and>
   node16 (registerNeighbor nodeA (registerNeighbor nodeA constructor)) ''1a2b'' = Some 1"
  by (simp add: registerNeighbor_registry constructor_def nodeA_def)

text \<open>
  C3 as amended: registering the same pair twice leaves exactly one \<open>Node\<close> for that
  pair referred to by the registry, the same object under both lookups, and adds no key
  to either mapping; the second registration allocates a new \<open>Node\<close> with the same
  addresses, which takes the place of the earlier one in both mappings. The hypothesis
  \<open>keyed\<close> holds in every state a run reaches (lemma \<open>run_keyed\<close>).
\<close>

theorem reregistration_replaces_node:
  assumes k: "keyed s"
  shows "node16 (registerNeighbor nb (registerNeighbor nb s)) (addr16 nb) =
           Some (length (heap (registerNeighbor nb s))) \<and>
         node64 (registerNeighbor nb (registerNeighbor nb s)) (addr64 nb) =
           Some (length (heap (registerNeighbor nb s))) \<and>
         heap (registerNeighbor nb (registerNeighbor nb s)) !
           length (heap (registerNeighbor nb s)) = Node (addr64 nb) (addr16 nb) \<and>
         length (heap (registerNeighbor nb (registerNeighbor nb s))) =
           length (heap (registerNeighbor nb s)) + 1 \<and>
         dom (node16 (registerNeighbor nb (registerNeighbor nb s))) =
           dom (node16 (registerNeighbor nb s)) \<and>
         dom (node64 (registerNeighbor nb (registerNeighbor nb s))) =
           dom (node64 (registerNeighbor nb s)) \<and>
         {r \<in> ran (node16 (registerNeighbor nb (registerNeighbor nb s))) \<union>
               ran (node64 (registerNeighbor nb (registerNeighbor nb s))).
            heap (registerNeighbor nb (registerNeighbor nb s)) ! r =
              Node (addr64 nb) (addr16 nb)} =
           {length (heap (registerNeighbor nb s))}"
proof -
  let ?s1 = "registerNeighbor nb s"
  let ?s2 = "registerNeighbor nb ?s1"
  let ?r = "length (heap ?s1)"
  have hp: "heap ?s2 = heap ?s1 @ [Node (addr64 nb) (addr16 nb)]"
    by (rule registerNeighbor_registry(1))
  have m16: "node16 ?s2 (addr16 nb) = Some ?r"
    and m64: "node64 ?s2 (addr64 nb) = Some ?r"
    by (simp_all add: registerNeighbor_registry(2,3))
  have h: "heap ?s2 ! ?r = Node (addr64 nb) (addr16 nb)"
    unfolding hp by (rule nth_append_length)
  have len: "length (heap ?s2) = ?r + 1"
    unfolding hp by simp
  have d16: "dom (node16 ?s2) = dom (node16 ?s1)"
    and d64: "dom (node64 ?s2) = dom (node64 ?s1)"
    by (auto simp add: registerNeighbor_registry)
  have k2: "keyed ?s2" by (intro keyed_registerNeighbor k)
  have only: "r = ?r"
    if mem: "r \<in> ran (node16 ?s2) \<union> ran (node64 ?s2)"
      and nd: "heap ?s2 ! r = Node (addr64 nb) (addr16 nb)" for r
  proof -
    from mem consider a where "node16 ?s2 a = Some r" | b where "node64 ?s2 b = Some r"
      by (auto simp add: ran_def)
    then show ?thesis
    proof cases
      case 1
      with k2 have "node_addr16 (heap ?s2 ! r) = a" by (simp add: keyed_def)
      with nd have "a = addr16 nb" by simp
      with 1 m16 show ?thesis by simp
    next
      case 2
      with k2 have "node_addr64 (heap ?s2 ! r) = b" by (simp add: keyed_def)
      with nd have "b = addr64 nb" by simp
      with 2 m64 show ?thesis by simp
    qed
  qed
  have "?r \<in> ran (node16 ?s2)" using m16 by (rule ranI)
  with only h have
    "{r \<in> ran (node16 ?s2) \<union> ran (node64 ?s2). heap ?s2 ! r = Node (addr64 nb) (addr16 nb)} =
     {?r}"
    by blast
  with m16 m64 h len d16 d64 show ?thesis by simp
qed

theorem reregistration_replaces_node_witness:
  "keyed constructor \<and>
   node16 (registerNeighbor nodeA (registerNeighbor nodeA constructor)) (addr16 nodeA) =
     Some 1 \<and>
   node64 (registerNeighbor nodeA (registerNeighbor nodeA constructor)) (addr64 nodeA) =
     Some 1 \<and>
   {r \<in> ran (node16 (registerNeighbor nodeA (registerNeighbor nodeA constructor))) \<union>
         ran (node64 (registerNeighbor nodeA (registerNeighbor nodeA constructor))).
      heap (registerNeighbor nodeA (registerNeighbor nodeA constructor)) ! r =
        Node (addr64 nodeA) (addr16 nodeA)} = {1}"
proof -
  have a: "keyed constructor" by (simp add: keyed_def constructor_def)
  have b: "length (heap (registerNeighbor nodeA constructor)) = 1"
    by (simp add: registerNeighbor_registry constructor_def)
  show ?thesis using a reregistration_replaces_node [OF a, of nodeA] unfolding b by simp
qed

subsection \<open>C4: the next start index of the neighbour-table walk\<close>

text \<open>
  C4: for every Management-LQI response (a data indication on the response cluster whose
  entries are all present), the next start index is the response's \<open>startIndex\<close> plus
  its \<open>numEntriesThisResponse\<close>. When that index is below \<open>numEntries\<close>, \<open>handleFrame\<close>
  writes one request with this start index, after the frame the signal check may have
  written, and leaves the port open; otherwise it writes no request, dumps the registry
  and closes the port. Nothing is raised in either case.
\<close>

theorem pagination_next_start_index:
  assumes "ftype f = APS_DATA_INDICATION"
    and "clusterId f = MANAGEMENT_LQI_RESPONSE"
    and "numEntriesThisResponse f \<le> length (neighbors f)"
  shows "fst (handleFrame cfg f s) = None \<and>
         (startIndex f + numEntriesThisResponse f < numEntries f \<longrightarrow>
            sent (snd (handleFrame cfg f s)) =
              sent s @
              (if dataConfirm f = Some True then [ApsDataConfirmFrame]
               else if dataIndication f = Some True then [ApsDataIndicationFrame] else []) @
              [ZdoFrame (Some APS_DATA_REQUEST) (props s ''macAddress'') ''0000''
                 MANAGEMENT_LQI_REQUEST (startIndex f + numEntriesThisResponse f)] \<and>
            closed (snd (handleFrame cfg f s)) = closed s \<and>
            console (snd (handleFrame cfg f s)) = console s) \<and>
         (\<not> startIndex f + numEntriesThisResponse f < numEntries f \<longrightarrow>
            sent (snd (handleFrame cfg f s)) =
              sent s @
              (if dataConfirm f = Some True then [ApsDataConfirmFrame]
               else if dataIndication f = Some True then [ApsDataIndicationFrame] else []) \<and>
            closed (snd (handleFrame cfg f s)) \<and>
            console (snd (handleFrame cfg f s)) = console s @ [NodesDumped, DemoCompleted])"
proof -
  let ?s0 = "deviceStateSignals f (s\<lparr>deviceStateUpdateInProgress := False\<rparr>)"
  obtain s1 where loop: "registerLoop f 0 ?s0 = (None, s1)"
    using registerLoop_in_range [OF assms(3)] by blast
  have s1: "sent s1 = sent ?s0" "console s1 = console s" "closed s1 = closed s"
    "props s1 = props s"
    using registerLoop_proj [of f 0 ?s0] loop by simp_all
  have eq: "handleFrame cfg f s = handleManagementLqiResponse f ?s0"
    by (rule handleFrame_lqi [OF assms(1,2)])
  show ?thesis
    unfolding eq
    using loop s1 deviceStateSignals_sent_cleared [of f s]
    by (simp add: handleManagementLqiResponse_def Let_def demoDone_def dumpNodes_def)
qed

text \<open>
  The witness is the run of the specification's example: with nothing to read, the
  first request asks for index 0, and the pages \<open>(0, 5, 12)\<close>, \<open>(5, 5, 12)\<close> and
  \<open>(10, 2, 12)\<close> bring the requests for 5 and 10 and, after the third page only, the end
  of the run.
\<close>

theorem pagination_next_start_index_witness:
  "ftype page1 = APS_DATA_INDICATION \<and> clusterId page1 = MANAGEMENT_LQI_RESPONSE \<and>
   numEntriesThisResponse page1 \<le> length (neighbors page1) \<and>
   sent (run emptyConfig []) =
     [ZdoFrame (Some APS_DATA_REQUEST) None ''0000'' MANAGEMENT_LQI_REQUEST 0] \<and>
   sent (run emptyConfig [page1, page2, page3]) =
     [ZdoFrame (Some APS_DATA_REQUEST) None ''0000'' MANAGEMENT_LQI_REQUEST 0,
      ZdoFrame (Some APS_DATA_REQUEST) None ''0000'' MANAGEMENT_LQI_REQUEST 5,
      ZdoFrame (Some APS_DATA_REQUEST) None ''0000'' MANAGEMENT_LQI_REQUEST 10] \<and>
   \<not> closed (run emptyConfig [page1]) \<and>
   \<not> closed (run emptyConfig [page1, page2]) \<and>
   closed (run emptyConfig [page1, page2, page3])"
proof -
  have h1: "ftype page1 = APS_DATA_INDICATION" "clusterId page1 = MANAGEMENT_LQI_RESPONSE"
    "numEntriesThisResponse page1 \<le> length (neighbors page1)"
    by (simp_all add: page1_def lqiResponse_sel)
  have h2: "ftype page2 = APS_DATA_INDICATION" "clusterId page2 = MANAGEMENT_LQI_RESPONSE"
    "numEntriesThisResponse page2 \<le> length (neighbors page2)"
    by (simp_all add: page2_def lqiResponse_sel)
  have h3: "ftype page3 = APS_DATA_INDICATION" "clusterId page3 = MANAGEMENT_LQI_RESPONSE"
    "numEntriesThisResponse page3 \<le> length (neighbors page3)"
    by (simp_all add: page3_def lqiResponse_sel)
  have r1: "run emptyConfig [page1] = snd (handleFrame emptyConfig page1 (run emptyConfig []))"
    using run_snoc [of emptyConfig "[]" page1] by simp
  have r2: "run emptyConfig [page1, page2] =
            snd (handleFrame emptyConfig page2 (run emptyConfig [page1]))"
    using run_snoc [of emptyConfig "[page1]" page2] by simp
  have r3: "run emptyConfig [page1, page2, page3] =
            snd (handleFrame emptyConfig page3 (run emptyConfig [page1, page2]))"
    using run_snoc [of emptyConfig "[page1, page2]" page3] by simp
  have p1: "props (run emptyConfig [page1]) = Map.empty"
    unfolding r1 using h1(1) by (simp add: handleFrame_props run_empty_Nil)
  have p2: "props (run emptyConfig [page1, page2]) = Map.empty"
    unfolding r2 using h2(1) p1 by (simp add: handleFrame_props)
  have s1: "sent (run emptyConfig [page1]) =
      [ZdoFrame (Some APS_DATA_REQUEST) None ''0000'' MANAGEMENT_LQI_REQUEST 0,
       ZdoFrame (Some APS_DATA_REQUEST) None ''0000'' MANAGEMENT_LQI_REQUEST 5] \<and>
      \<not> closed (run emptyConfig [page1])"
    unfolding r1
    using pagination_next_start_index [OF h1, of emptyConfig "run emptyConfig []"]
    by (simp add: run_empty_Nil page1_def lqiResponse_sel)
  have s2: "sent (run emptyConfig [page1, page2]) =
      [ZdoFrame (Some APS_DATA_REQUEST) None ''0000'' MANAGEMENT_LQI_REQUEST 0,
       ZdoFrame (Some APS_DATA_REQUEST) None ''0000'' MANAGEMENT_LQI_REQUEST 5,
       ZdoFrame (Some APS_DATA_REQUEST) None ''0000'' MANAGEMENT_LQI_REQUEST 10] \<and>
      \<not> closed (run emptyConfig [page1, page2])"
    unfolding r2
    using pagination_next_start_index [OF h2, of emptyConfig "run emptyConfig [page1]"] s1 p1
    by (simp add: page2_def lqiResponse_sel)
  have s3: "sent (run emptyConfig [page1, page2, page3]) =
      [ZdoFrame (Some APS_DATA_REQUEST) None ''0000'' MANAGEMENT_LQI_REQUEST 0,
       ZdoFrame (Some APS_DATA_REQUEST) None ''0000'' MANAGEMENT_LQI_REQUEST 5,
       ZdoFrame (Some APS_DATA_REQUEST) None ''0000'' MANAGEMENT_LQI_REQUEST 10] \<and>
      closed (run emptyConfig [page1, page2, page3])"
    unfolding r3
    using pagination_next_start_index [OF h3, of emptyConfig "run emptyConfig [page1, page2]"] s2 p2
    by (simp add: page3_def lqiResponse_sel)
  show ?thesis using h1 s1 s2 s3 by (simp add: run_empty_Nil)
qed

subsection \<open>C5: the parameter cursor\<close>

text \<open>
  C5: in every run, after any sequence of inbound frames, the cursor is at most the
  descriptor count, also after one more frame; that frame does not decrease it, and
  advances it by exactly one when it is a parameter-read response arriving while the
  cursor is below the descriptor count, and leaves it as it is otherwise.
\<close>

theorem cursor_step_and_range:
  "paramIdx (run cfg fs) \<le> length (PARAM cfg) \<and>
   paramIdx (run cfg (fs @ [f])) \<le> length (PARAM cfg) \<and>
   paramIdx (run cfg fs) \<le> paramIdx (run cfg (fs @ [f])) \<and>
   paramIdx (run cfg (fs @ [f])) =
     (if ftype f = READ_PARAMETER \<and> paramIdx (run cfg fs) < length (PARAM cfg)
      then paramIdx (run cfg fs) + 1 else paramIdx (run cfg fs))"
  using run_paramIdx_le [of cfg fs] run_paramIdx_le [of cfg "fs @ [f]"]
  by (simp add: run_snoc handleFrame_paramIdx)

theorem cursor_step_and_range_witness:
  "paramIdx (run exampleConfig [pendingConfirmState, pendingConfirmRead]) = 1 \<and>
   paramIdx (run exampleConfig [pendingConfirmState]) = 0"
  using cursor_step_and_range [of exampleConfig "[pendingConfirmState]" pendingConfirmRead]
  by (simp add: run_example_pending pendingConfirmRead_sel exampleConfig_sel PARAM_table_def)

subsection \<open>C6: the two registries refer to the same nodes\<close>




subsection \<open>C7: frames that no branch handles\<close>

text \<open>
  C7 as stated: a frame that is neither a parameter-read response while parameters are
  read, nor a neighbour-table response while the table is walked, nor carries a pending
  signal, leaves the cursor, the flag and the registry as they are, and nothing is
  written. The statement fails on the code in two ways, each forcing one change of the
  statement. First, lines 154 to 157 clear the flag for every frame of type
  \<open>APS_DATA_INDICATION\<close> or \<open>APS_DATA_CONFIRM\<close>: a data-confirm frame without pending
  signal, arriving while the flag is set, clears it. Second, lines 193 to 197 test no
  state: a Management-LQI response arriving before the first parameter has been read,
  with the cursor at 0 of 13 and the port open, has its two neighbours registered and
  the port closed.
\<close>

theorem unexpected_frame_counterexample:
  "ftype (plainFrame APS_DATA_CONFIRM) \<noteq> READ_PARAMETER \<and>
   \<not> (ftype (plainFrame APS_DATA_CONFIRM) = APS_DATA_INDICATION \<and>
      clusterId (plainFrame APS_DATA_CONFIRM) = MANAGEMENT_LQI_RESPONSE) \<and>
   dataConfirm (plainFrame APS_DATA_CONFIRM) \<noteq> Some True \<and>
   dataIndication (plainFrame APS_DATA_CONFIRM) \<noteq> Some True \<and>
   deviceStateUpdateInProgress (run exampleConfig [pendingConfirmState]) \<and>
   \<not> deviceStateUpdateInProgress
       (snd (handleFrame exampleConfig (plainFrame APS_DATA_CONFIRM)
               (run exampleConfig [pendingConfirmState]))) \<and>
   ftype twoNodes \<noteq> READ_PARAMETER \<and>
   dataConfirm twoNodes \<noteq> Some True \<and>
   dataIndication twoNodes \<noteq> Some True \<and>
   paramIdx (run exampleConfig []) < length (PARAM exampleConfig) \<and>
   \<not> closed (run exampleConfig []) \<and>
   heap (run exampleConfig []) = [] \<and>
   heap (snd (handleFrame exampleConfig twoNodes (run exampleConfig []))) =
     [Node ''00212effff001111'' ''1a2b'', Node ''00212effff002222'' ''3c4d''] \<and>
   closed (snd (handleFrame exampleConfig twoNodes (run exampleConfig [])))"
proof -
  have flagpart:
    "ftype (plainFrame APS_DATA_CONFIRM) \<noteq> READ_PARAMETER \<and>
     \<not> (ftype (plainFrame APS_DATA_CONFIRM) = APS_DATA_INDICATION \<and>
        clusterId (plainFrame APS_DATA_CONFIRM) = MANAGEMENT_LQI_RESPONSE) \<and>
     dataConfirm (plainFrame APS_DATA_CONFIRM) \<noteq> Some True \<and>
     dataIndication (plainFrame APS_DATA_CONFIRM) \<noteq> Some True \<and>
     deviceStateUpdateInProgress (run exampleConfig [pendingConfirmState]) \<and>
     \<not> deviceStateUpdateInProgress
         (snd (handleFrame exampleConfig (plainFrame APS_DATA_CONFIRM)
                 (run exampleConfig [pendingConfirmState])))"
    by (simp add: run_example_pending handleFrame_other plainFrame_sel
          clearInProgress_def deviceStateSignals_def)
  let ?st = "run exampleConfig []"
  let ?sa = "deviceStateSignals twoNodes (?st\<lparr>deviceStateUpdateInProgress := False\<rparr>)"
  let ?sb = "registerNeighbor nodeB (registerNeighbor nodeA ?sa)"
  have frame: "ftype twoNodes \<noteq> READ_PARAMETER" "dataConfirm twoNodes \<noteq> Some True"
    "dataIndication twoNodes \<noteq> Some True"
    by (simp_all add: twoNodes_def lqiResponse_sel)
  have before: "paramIdx ?st < length (PARAM exampleConfig)" "\<not> closed ?st" "heap ?st = []"
    by (simp_all add: run_example_Nil_sel exampleConfig_sel PARAM_table_def)
  have eq: "handleFrame exampleConfig twoNodes ?st = handleManagementLqiResponse twoNodes ?sa"
    using handleFrame_lqi [of twoNodes exampleConfig ?st]
    by (simp add: twoNodes_def lqiResponse_sel)
  have loop: "registerLoop twoNodes 0 ?sa = (None, ?sb)"
    using registerLoop_in_range [of twoNodes 0 ?sa]
    by (simp add: twoNodes_def lqiResponse_sel)
  have h: "heap ?sb = [Node ''00212effff001111'' ''1a2b'', Node ''00212effff002222'' ''3c4d'']"
    by (simp add: registerNeighbor_registry run_example_Nil_sel nodeA_def nodeB_def)
  have "heap (snd (handleManagementLqiResponse twoNodes ?sa)) = heap ?sb"
    using handleManagementLqiResponse_registry [of twoNodes ?sa] loop by simp
  moreover have "closed (snd (handleManagementLqiResponse twoNodes ?sa))"
    using loop
    by (simp add: handleManagementLqiResponse_def Let_def demoDone_def dumpNodes_def
          twoNodes_def lqiResponse_sel)
  ultimately show ?thesis
    using flagpart frame before h unfolding eq by simp
qed

text \<open>
  C7 as amended: for every frame that is neither a parameter-read response arriving
  while the cursor is below the descriptor count, nor a data indication on the
  Management-LQI response cluster (which is handled in whatever state it arrives), and
  that carries neither pending signal, \<open>handleFrame\<close> raises nothing, writes no frame
  and leaves the cursor, the stored parameters and the registry as they are; the flag is
  cleared when the frame's type is \<open>APS_DATA_INDICATION\<close> or \<open>APS_DATA_CONFIRM\<close>, and is
  left as it is otherwise.
\<close>

theorem unexpected_frame_effect:
  assumes "\<not> (ftype f = READ_PARAMETER \<and> paramIdx s < length (PARAM cfg))"
    and "\<not> (ftype f = APS_DATA_INDICATION \<and> clusterId f = MANAGEMENT_LQI_RESPONSE)"
    and "dataConfirm f \<noteq> Some True"
    and "dataIndication f \<noteq> Some True"
  shows "handleFrame cfg f s =
           (None, s\<lparr>deviceStateUpdateInProgress :=
                      deviceStateUpdateInProgress s \<and> ftype f \<noteq> APS_DATA_INDICATION \<and>
                      ftype f \<noteq> APS_DATA_CONFIRM\<rparr>)"
proof -
  have sig: "deviceStateSignals f (clearInProgress f s) = clearInProgress f s"
    using assms(3,4) by (simp add: deviceStateSignals_def)
  have clr: "clearInProgress f s =
      s\<lparr>deviceStateUpdateInProgress :=
           deviceStateUpdateInProgress s \<and> ftype f \<noteq> APS_DATA_INDICATION \<and>
           ftype f \<noteq> APS_DATA_CONFIRM\<rparr>"
    by (simp add: clearInProgress_def)
  have "dispatchFrame cfg f (clearInProgress f s) = (None, clearInProgress f s)"
    using assms(1,2) by (auto simp add: dispatchFrame_def)
  with sig clr show ?thesis by (simp add: handleFrame_def)
qed

theorem unexpected_frame_effect_witness:
  "\<not> (ftype (plainFrame (OTHER_TYPE 7)) = READ_PARAMETER \<and>
      paramIdx (run exampleConfig [pendingConfirmState]) < length (PARAM exampleConfig)) \<and>
   \<not> (ftype (plainFrame (OTHER_TYPE 7)) = APS_DATA_INDICATION \<and>
      clusterId (plainFrame (OTHER_TYPE 7)) = MANAGEMENT_LQI_RESPONSE) \<and>
   dataConfirm (plainFrame (OTHER_TYPE 7)) \<noteq> Some True \<and>
   dataIndication (plainFrame (OTHER_TYPE 7)) \<noteq> Some True \<and>
   handleFrame exampleConfig (plainFrame (OTHER_TYPE 7))
       (run exampleConfig [pendingConfirmState]) =
     (None, run exampleConfig [pendingConfirmState])"
proof -
  let ?f = "plainFrame (OTHER_TYPE 7)"
  let ?s = "run exampleConfig [pendingConfirmState]"
  have a: "\<not> (ftype ?f = READ_PARAMETER \<and> paramIdx ?s < length (PARAM exampleConfig))"
    by (simp add: plainFrame_sel)
  have b: "\<not> (ftype ?f = APS_DATA_INDICATION \<and> clusterId ?f = MANAGEMENT_LQI_RESPONSE)"
    by (simp add: plainFrame_sel)
  have c: "dataConfirm ?f \<noteq> Some True" by (simp add: plainFrame_sel)
  have d: "dataIndication ?f \<noteq> Some True" by (simp add: plainFrame_sel)
  have e: "deviceStateUpdateInProgress ?s" by (simp add: run_example_pending)
  show ?thesis
    using a b c d e unexpected_frame_effect [OF a b c d] by (simp add: plainFrame_sel)
qed

subsection \<open>C8: no parameter to read\<close>

text \<open>
  C8: when the descriptor sequence is empty, \<open>readParameters\<close> sets the cursor to 0,
  which is the descriptor count, and writes the first neighbour-table request, for start
  index 0, and nothing else; a run then starts with that request as the only frame
  written.
\<close>

theorem empty_descriptors_start_walk:
  assumes "PARAM cfg = []"
  shows "readParameters cfg s =
           s\<lparr>paramIdx := 0,
             sent := sent s @ [ZdoFrame (Some APS_DATA_REQUEST) (props s ''macAddress'')
                                 ''0000'' MANAGEMENT_LQI_REQUEST 0]\<rparr> \<and>
         sent (run cfg []) =
           [ZdoFrame (Some APS_DATA_REQUEST) None ''0000'' MANAGEMENT_LQI_REQUEST 0] \<and>
         paramIdx (run cfg []) = length (PARAM cfg)"
  using assms
  by (simp add: run_def readParameters_def readParameter_def managementLqi_def sendFrame_def
        constructor_def)

theorem empty_descriptors_start_walk_witness:
  "PARAM emptyConfig = [] \<and>
   sent (run emptyConfig []) =
     [ZdoFrame (Some APS_DATA_REQUEST) None ''0000'' MANAGEMENT_LQI_REQUEST 0] \<and>
   paramIdx (run emptyConfig []) = 0"
proof -
  have a: "PARAM emptyConfig = []" by (simp add: emptyConfig_def)
  show ?thesis using a empty_descriptors_start_walk [OF a, of constructor] by simp
qed

subsection \<open>C9: data frames clear the flag before the signal check\<close>

text \<open>
  C9 as stated: a frame of type \<open>APS_DATA_INDICATION\<close> or \<open>APS_DATA_CONFIRM\<close> that
  carries the pending-indication signal has a fetch-indication frame written, even if a
  confirmation was in flight. The statement fails on the code when the frame carries the
  pending-confirm signal as well: the test of line 159 comes first, and the branch of
  line 165 is its \<open>else\<close>. The frame written is then a confirmation frame, and no
  fetch-indication frame follows.
\<close>

theorem confirm_before_indication_counterexample:
  "ftype bothSignalsConfirm = APS_DATA_CONFIRM \<and>
   dataIndication bothSignalsConfirm = Some True \<and>
   deviceStateUpdateInProgress (run exampleConfig [pendingConfirmState]) \<and>
   sent (snd (handleFrame exampleConfig bothSignalsConfirm
                (run exampleConfig [pendingConfirmState]))) =
     sent (run exampleConfig [pendingConfirmState]) @ [ApsDataConfirmFrame]"
  by (simp add: run_example_pending handleFrame_other bothSignalsConfirm_sel
        clearInProgress_def deviceStateSignals_def sendFrame_def)

text \<open>
  C9 as amended: for every frame of type \<open>APS_DATA_INDICATION\<close> or \<open>APS_DATA_CONFIRM\<close>,
  the signal check and the dispatch run on the state with the flag cleared; so such a
  frame that carries the pending-indication signal and not the pending-confirm signal
  has a fetch-indication frame written, the first of the frames it causes, and the flag
  set again, whatever the flag was before.
\<close>

theorem flag_cleared_before_signals:
  assumes "ftype f = APS_DATA_INDICATION \<or> ftype f = APS_DATA_CONFIRM"
  shows "handleFrame cfg f s =
           dispatchFrame cfg f
             (deviceStateSignals f (s\<lparr>deviceStateUpdateInProgress := False\<rparr>)) \<and>
         (dataIndication f = Some True \<and> dataConfirm f \<noteq> Some True \<longrightarrow>
            deviceStateUpdateInProgress (snd (handleFrame cfg f s)) \<and>
            (\<exists>rest. sent (snd (handleFrame cfg f s)) =
               sent s @ ApsDataIndicationFrame # rest))"
proof -
  let ?s0 = "s\<lparr>deviceStateUpdateInProgress := False\<rparr>"
  have clr: "clearInProgress f s = ?s0"
    using assms by (simp add: clearInProgress_def)
  then have eq: "handleFrame cfg f s = dispatchFrame cfg f (deviceStateSignals f ?s0)"
    by (simp add: handleFrame_def)
  have "deviceStateUpdateInProgress (snd (handleFrame cfg f s)) \<and>
        (\<exists>rest. sent (snd (handleFrame cfg f s)) = sent s @ ApsDataIndicationFrame # rest)"
    if ind: "dataIndication f = Some True" and nc: "dataConfirm f \<noteq> Some True"
  proof -
    have flag: "deviceStateUpdateInProgress (deviceStateSignals f ?s0)"
      using ind nc by (simp add: deviceStateSignals_def)
    have snt: "sent (deviceStateSignals f ?s0) = sent s @ [ApsDataIndicationFrame]"
      using ind nc by (simp add: deviceStateSignals_def)
    obtain rest where
      "sent (snd (dispatchFrame cfg f (deviceStateSignals f ?s0))) =
         sent (deviceStateSignals f ?s0) @ rest"
      using dispatchFrame_sent by blast
    with snt eq have "sent (snd (handleFrame cfg f s)) = sent s @ ApsDataIndicationFrame # rest"
      by simp
    moreover have "deviceStateUpdateInProgress (snd (handleFrame cfg f s))"
      using flag eq by (simp add: dispatchFrame_flag)
    ultimately show ?thesis by blast
  qed
  with eq show ?thesis by blast
qed

theorem flag_cleared_before_signals_witness:
  "(ftype pendingIndicationConfirm = APS_DATA_INDICATION \<or>
    ftype pendingIndicationConfirm = APS_DATA_CONFIRM) \<and>
   dataIndication pendingIndicationConfirm = Some True \<and>
   dataConfirm pendingIndicationConfirm \<noteq> Some True \<and>
   deviceStateUpdateInProgress (run exampleConfig [pendingConfirmState]) \<and>
   deviceStateUpdateInProgress
     (snd (handleFrame exampleConfig pendingIndicationConfirm
             (run exampleConfig [pendingConfirmState]))) \<and>
   (\<exists>rest. sent (snd (handleFrame exampleConfig pendingIndicationConfirm
                        (run exampleConfig [pendingConfirmState]))) =
      sent (run exampleConfig [pendingConfirmState]) @ ApsDataIndicationFrame # rest)"
proof -
  have a: "ftype pendingIndicationConfirm = APS_DATA_INDICATION \<or>
           ftype pendingIndicationConfirm = APS_DATA_CONFIRM"
    by (simp add: pendingIndicationConfirm_sel)
  have b: "dataIndication pendingIndicationConfirm = Some True \<and>
           dataConfirm pendingIndicationConfirm \<noteq> Some True"
    by (simp add: pendingIndicationConfirm_sel)
  have c: "deviceStateUpdateInProgress (run exampleConfig [pendingConfirmState])"
    by (simp add: run_example_pending)
  show ?thesis
    using a b c
      flag_cleared_before_signals [OF a, of exampleConfig "run exampleConfig [pendingConfirmState]"]
    by blast
qed

subsection \<open>C10: parameter-read responses after the last parameter\<close>

text \<open>
  C10: once the cursor equals the descriptor count, a parameter-read response raises
  nothing and changes neither the cursor, the stored parameters, the registry, the
  printed lines nor the state of the port; the only frame it can cause is the one of the
  signal check. And in every run the request of line 183, which starts the walk when the
  last parameter has been read, is written at most once.
\<close>

theorem reads_after_completion_ignored:
  "(ftype f = READ_PARAMETER \<and> paramIdx s = length (PARAM cfg) \<longrightarrow>
      fst (handleFrame cfg f s) = None \<and>
      paramIdx (snd (handleFrame cfg f s)) = paramIdx s \<and>
      props (snd (handleFrame cfg f s)) = props s \<and>
      heap (snd (handleFrame cfg f s)) = heap s \<and>
      node16 (snd (handleFrame cfg f s)) = node16 s \<and>
      node64 (snd (handleFrame cfg f s)) = node64 s \<and>
      console (snd (handleFrame cfg f s)) = console s \<and>
      closed (snd (handleFrame cfg f s)) = closed s \<and>
      sent (snd (handleFrame cfg f s)) =
        sent s @
        (if dataConfirm f = Some True then [ApsDataConfirmFrame]
         else if \<not> deviceStateUpdateInProgress s \<and> dataIndication f = Some True
         then [ApsDataIndicationFrame] else [])) \<and>
   length (filter isFirstRequest (sent (run cfg fs))) \<le> 1"
proof -
  have "handleFrame cfg f s = (None, deviceStateSignals f s)"
    if "ftype f = READ_PARAMETER" and "paramIdx s = length (PARAM cfg)"
    using that by (simp add: handleFrame_def dispatchFrame_def clearInProgress_def)
  moreover have "sent (deviceStateSignals f s) =
      sent s @
      (if dataConfirm f = Some True then [ApsDataConfirmFrame]
       else if \<not> deviceStateUpdateInProgress s \<and> dataIndication f = Some True
       then [ApsDataIndicationFrame] else [])"
    by (simp add: deviceStateSignals_def)
  moreover have "length (filter isFirstRequest (sent (run cfg fs))) \<le> 1"
    using run_first [of cfg fs] by (simp split: if_splits)
  ultimately show ?thesis by simp
qed

theorem reads_after_completion_ignored_witness:
  "ftype pendingConfirmRead = READ_PARAMETER \<and>
   paramIdx (run exampleConfig (replicate 13 pendingConfirmRead)) =
     length (PARAM exampleConfig) \<and>
   paramIdx (snd (handleFrame exampleConfig pendingConfirmRead
                    (run exampleConfig (replicate 13 pendingConfirmRead)))) = 13 \<and>
   props (snd (handleFrame exampleConfig pendingConfirmRead
                 (run exampleConfig (replicate 13 pendingConfirmRead)))) =
     props (run exampleConfig (replicate 13 pendingConfirmRead)) \<and>
   sent (snd (handleFrame exampleConfig pendingConfirmRead
                (run exampleConfig (replicate 13 pendingConfirmRead)))) =
     sent (run exampleConfig (replicate 13 pendingConfirmRead)) @ [ApsDataConfirmFrame] \<and>
   length (filter isFirstRequest
             (sent (run exampleConfig (replicate 14 pendingConfirmRead)))) \<le> 1"
proof -
  have a: "ftype pendingConfirmRead = READ_PARAMETER"
    by (simp add: pendingConfirmRead_sel)
  have b: "paramIdx (run exampleConfig (replicate 13 pendingConfirmRead)) =
           length (PARAM exampleConfig)"
    using run_paramIdx_reads [of "replicate 13 pendingConfirmRead" exampleConfig]
    by (simp add: pendingConfirmRead_sel exampleConfig_sel PARAM_table_def)
  show ?thesis
    using a b
      reads_after_completion_ignored [of pendingConfirmRead "run exampleConfig (replicate 13 pendingConfirmRead)"
        exampleConfig "replicate 14 pendingConfirmRead"]
    by (simp add: pendingConfirmRead_sel exampleConfig_sel PARAM_table_def)
qed

end
